theory Spec2Isabelle
  imports Main "HOL-Library.Word"
begin

section \<open>Python values and built-ins used by the sources\<close>

text \<open>
  A Python \<open>str\<close> is modelled as a \<open>string\<close>, each \<open>char\<close> standing for the code point of
  the same number: the model covers the texts whose code points lie below 256. The
  built-ins below are those of CPython restricted to that range.
\<close>

datatype py_error = ValueError | IndexError | UnicodeEncodeError

text \<open>\<open>str.isspace\<close> on one character: U+0009..U+000D, U+001C..U+0020, U+0085, U+00A0.\<close>

definition py_isspace :: "char \<Rightarrow> bool" where
  "py_isspace c =
     (let n = (of_char c :: nat)
      in (9 \<le> n \<and> n \<le> 13) \<or> (28 \<le> n \<and> n \<le> 32) \<or> n = 133 \<or> n = 160)"

text \<open>\<open>str.strip()\<close>: drops the leading and the trailing white space.\<close>

definition strip :: "string \<Rightarrow> string" where
  "strip s = rev (dropWhile py_isspace (rev (dropWhile py_isspace s)))"

text \<open>The decimal digits \<open>0\<close>..\<open>9\<close> (Unicode category Nd below 256).\<close>

definition py_isdecimal :: "char \<Rightarrow> bool" where
  "py_isdecimal c = (let n = (of_char c :: nat) in 48 \<le> n \<and> n \<le> 57)"

text \<open>
  \<open>str.isdigit()\<close>: true when the string is not empty and every character is a digit.
  Digits are the decimal digits and the characters of numeric type Digit, which below 256
  are the superscripts U+00B2, U+00B3 and U+00B9.
\<close>

definition py_isdigit_char :: "char \<Rightarrow> bool" where
  "py_isdigit_char c =
     (py_isdecimal c \<or> (let n = (of_char c :: nat) in n = 178 \<or> n = 179 \<or> n = 185))"

definition isdigit :: "string \<Rightarrow> bool" where
  "isdigit s = (s \<noteq> [] \<and> list_all py_isdigit_char s)"

text \<open>
  \<open>int(s)\<close> for a string, base ten: surrounding white space is ignored, one sign is
  allowed, then decimal digits with single underscores between them. Anything else raises
  \<open>ValueError\<close>, and so does a literal of more digits than the interpreter's limit
  (\<open>sys.int_info.default_max_str_digits\<close>). The white space \<open>int\<close> ignores is not that of
  \<open>strip\<close>: it is U+0009..U+000D, the blank, U+0085 and U+00A0, without the separators
  U+001C..U+001F.
\<close>

definition int_isspace :: "char \<Rightarrow> bool" where
  "int_isspace c =
     (let n = (of_char c :: nat)
      in (9 \<le> n \<and> n \<le> 13) \<or> n = 32 \<or> n = 133 \<or> n = 160)"

definition int_max_str_digits :: nat where
  "int_max_str_digits = 4300"

fun digits_ok :: "string \<Rightarrow> bool" where
  "digits_ok [] = False"
| "digits_ok [c] = py_isdecimal c"
| "digits_ok (c # d # cs) =
     (if py_isdecimal c then
        (if d = CHR ''_'' then cs \<noteq> [] \<and> py_isdecimal (hd cs) \<and> digits_ok cs
         else digits_ok (d # cs))
      else False)"

definition digit_value :: "char \<Rightarrow> int" where
  "digit_value c = int (of_char c) - 48"

definition decimal_value :: "string \<Rightarrow> int" where
  "decimal_value ds = foldl (\<lambda>acc c. 10 * acc + digit_value c) 0 ds"

definition py_int :: "string \<Rightarrow> py_error + int" where
  "py_int s =
     (let t = rev (dropWhile int_isspace (rev (dropWhile int_isspace s)));
          negative = (t \<noteq> [] \<and> hd t = CHR ''-'');
          body = (if t \<noteq> [] \<and> (hd t = CHR ''-'' \<or> hd t = CHR ''+'') then tl t else t);
          ds = filter (\<lambda>c. c \<noteq> CHR ''_'') body
      in if \<not> digits_ok body then Inl ValueError
         else if int_max_str_digits < length ds then Inl ValueError
         else Inr (if negative then - decimal_value ds else decimal_value ds))"

text \<open>\<open>xs[i]\<close> for a non-negative index: \<open>IndexError\<close> past the end.\<close>

definition py_index :: "'a list \<Rightarrow> nat \<Rightarrow> py_error + 'a" where
  "py_index xs i = (if i < length xs then Inr (xs ! i) else Inl IndexError)"

text \<open>\<open>d.get(key, default)\<close> on a dictionary.\<close>

definition dict_get :: "('k \<rightharpoonup> 'v) \<Rightarrow> 'k \<Rightarrow> 'v \<Rightarrow> 'v" where
  "dict_get d k dflt = (case d k of None \<Rightarrow> dflt | Some v \<Rightarrow> v)"

section \<open>The HTML parsing library\<close>

text \<open>
  The sources import \<open>HTMLParser\<close> from the package \<open>selectolax\<close>, which is not part of
  the repository. Its operations are a parameter of the model: a record of the five
  operations the sources call, over a type \<open>'n\<close> of nodes.
  \<^item> \<open>HTMLParser content\<close> is the tree built from a text (its root node);
  \<^item> \<open>css sel n\<close> is the list \<open>n.css(sel)\<close> of the nodes under \<open>n\<close> selected by \<open>sel\<close>;
  \<^item> \<open>css_first sel n\<close> is \<open>n.css_first(sel)\<close>, \<open>None\<close> when nothing is selected;
  \<^item> \<open>node_text n\<close> is \<open>n.text()\<close>;
  \<^item> \<open>attributes n\<close> is the dictionary \<open>n.attributes\<close>; the library gives the value
    \<open>None\<close> to an attribute written without a value.
  None of these operations raises on the arguments the sources pass, and each is a
  function of its arguments. The theorems below hold for every such library.
\<close>

record 'n selectolax =
  HTMLParser :: "string \<Rightarrow> 'n"
  css :: "string \<Rightarrow> 'n \<Rightarrow> 'n list"
  css_first :: "string \<Rightarrow> 'n \<Rightarrow> 'n option"
  node_text :: "'n \<Rightarrow> string"
  attributes :: "'n \<Rightarrow> (string \<rightharpoonup> string option)"

section \<open>The table extractor (\<open>dev/parse_with_selectolax.py\<close>)\<close>

text \<open>
  The dictionaries built for a row have the keys \<open>version\<close>, \<open>url\<close>, \<open>timestamp\<close> and
  \<open>artifacts\<close>. Python's \<open>None\<close> is the \<open>None\<close> of an option type; the value under
  \<open>artifacts\<close> is an integer or a text.
\<close>

datatype py_value = PyInt int | PyStr string

record version_record =
  version :: "string option"
  url :: "string option"
  timestamp :: string
  artifacts :: py_value

record page_result =
  project :: "string option"
  version_count :: "string option"
  versions :: "version_record list"

text \<open>
  \<open>parse_pypi_inspector\<close>. The body of \<open>if len(cells) >= 3\<close> builds the dictionary of a
  row from its cells; \<open>int(artifacts)\<close> is the one call in it that can raise.
\<close>

definition inspector_entry :: "'n selectolax \<Rightarrow> 'n list \<Rightarrow> py_error + version_record" where
  "inspector_entry L cells =
     (case py_index cells 0 of Inl e \<Rightarrow> Inl e | Inr cell0 \<Rightarrow>
      let version_link = css_first L ''a'' cell0;
          version' = (case version_link of Some a \<Rightarrow> Some (node_text L a) | None \<Rightarrow> None);
          version_url = (case version_link of
                           Some a \<Rightarrow> dict_get (attributes L a) ''href'' (Some [])
                         | None \<Rightarrow> None)
      in case py_index cells 1 of Inl e \<Rightarrow> Inl e | Inr cell1 \<Rightarrow>
         let timestamp' = node_text L cell1
         in case py_index cells 2 of Inl e \<Rightarrow> Inl e | Inr cell2 \<Rightarrow>
            let artifacts' = node_text L cell2
            in case (if isdigit artifacts' then map_sum id PyInt (py_int artifacts')
                     else Inr (PyStr artifacts')) of
                 Inl e \<Rightarrow> Inl e
               | Inr a \<Rightarrow> Inr \<lparr>version = version', url = version_url,
                               timestamp = timestamp', artifacts = a\<rparr>)"

text \<open>The loop over the rows, with the list \<open>versions\<close> it appends to as accumulator.\<close>

fun parse_pypi_inspector_loop ::
  "'n selectolax \<Rightarrow> 'n list \<Rightarrow> version_record list \<Rightarrow> py_error + version_record list" where
  "parse_pypi_inspector_loop L [] acc = Inr acc"
| "parse_pypi_inspector_loop L (row # rows) acc =
     (let cells = css L ''td'' row in
      if 3 \<le> length cells then
        (case inspector_entry L cells of
           Inl e \<Rightarrow> Inl e
         | Inr d \<Rightarrow> parse_pypi_inspector_loop L rows (acc @ [d]))
      else parse_pypi_inspector_loop L rows acc)"

definition parse_pypi_inspector :: "'n selectolax \<Rightarrow> string \<Rightarrow> py_error + version_record list" where
  "parse_pypi_inspector L content =
     (let tree = HTMLParser L content;
          rows = css L ''table tr'' tree
      in parse_pypi_inspector_loop L (drop 1 rows) [])"

text \<open>
  \<open>parse_real_pypi_page\<close>. The body of \<open>if len(cells) >= 3\<close> yields the dictionary of the
  row, or nothing when the first cell holds no anchor.
\<close>

definition real_entry :: "'n selectolax \<Rightarrow> 'n list \<Rightarrow> py_error + version_record option" where
  "real_entry L cells =
     (case py_index cells 0 of Inl e \<Rightarrow> Inl e | Inr cell0 \<Rightarrow>
      (case css_first L ''a'' cell0 of
         None \<Rightarrow> Inr None
       | Some version_link \<Rightarrow>
           (case py_index cells 1 of Inl e \<Rightarrow> Inl e | Inr cell1 \<Rightarrow>
            case py_index cells 2 of Inl e \<Rightarrow> Inl e | Inr cell2 \<Rightarrow>
              Inr (Some \<lparr>version = Some (strip (node_text L version_link)),
                         url = dict_get (attributes L version_link) ''href'' (Some []),
                         timestamp = strip (node_text L cell1),
                         artifacts = PyStr (strip (node_text L cell2))\<rparr>))))"

fun parse_real_pypi_page_loop ::
  "'n selectolax \<Rightarrow> 'n list \<Rightarrow> version_record list \<Rightarrow> py_error + version_record list" where
  "parse_real_pypi_page_loop L [] acc = Inr acc"
| "parse_real_pypi_page_loop L (row # rows) acc =
     (let cells = css L ''td'' row in
      if 3 \<le> length cells then
        (case real_entry L cells of
           Inl e \<Rightarrow> Inl e
         | Inr None \<Rightarrow> parse_real_pypi_page_loop L rows acc
         | Inr (Some d) \<Rightarrow> parse_real_pypi_page_loop L rows (acc @ [d]))
      else parse_real_pypi_page_loop L rows acc)"

definition parse_real_pypi_page :: "'n selectolax \<Rightarrow> string \<Rightarrow> py_error + page_result" where
  "parse_real_pypi_page L html_str =
     (let tree = HTMLParser L html_str;
          project_input = css_first L ''input[name=\"project\"]'' tree;
          project_name = (case project_input of
                            Some i \<Rightarrow> dict_get (attributes L i) ''value'' (Some [])
                          | None \<Rightarrow> None);
          version_msg = css_first L ''p'' tree;
          version_count_text = (case version_msg of Some p \<Rightarrow> Some (node_text L p) | None \<Rightarrow> None)
      in case parse_real_pypi_page_loop L (css L ''table tbody tr, table tr'' tree) [] of
           Inl e \<Rightarrow> Inl e
         | Inr vs \<Rightarrow> Inr \<lparr>project = project_name, version_count = version_count_text,
                          versions = vs\<rparr>)"

section \<open>The fetcher (\<open>pip_inspector/utils.py\<close>)\<close>

text \<open>
  A URL is any Python \<open>str\<close>, so the texts of the fetcher are lists of code points
  (\<open>py_str\<close>), which may hold a surrogate; \<open>ustr\<close> turns a literal into such a list. Header
  names and values and the names of charsets and of error handlers stay \<open>string\<close>s.
\<close>

type_synonym py_str = "nat list"

definition ustr :: "string \<Rightarrow> py_str" where
  "ustr s = map of_char s"

text \<open>
  \<open>fetch_url_content\<close> calls \<open>urllib.request\<close>, \<open>bytes.decode\<close> and \<open>print\<close>, which are
  outside the repository; they are a parameter of the model. An exception raised inside
  the \<open>try\<close> block is a value of \<open>exn\<close>, one constructor for each \<open>except\<close> clause of the
  function that catches it first: \<open>HTTPError\<close> (with its code and reason), \<open>URLError\<close>
  (with its reason), \<open>ValueError\<close> and its subclasses, and any other subclass of
  \<open>Exception\<close> (a timeout, an incomplete read, \<open>LookupError\<close> for an unknown codec); each
  carries the text that \<open>str\<close> gives for it.
\<close>

type_synonym bytes = "8 word list"

datatype exn =
    HTTPError nat py_str
  | URLError py_str
  | ValueErr py_str
  | OtherException py_str

text \<open>
  The response object: what \<open>response.read()\<close> does and what
  \<open>response.headers.get_content_charset()\<close> returns.
\<close>

record response =
  read :: "exn + bytes"
  get_content_charset :: "string option"

text \<open>
  \<open>Request env url headers\<close> is the constructor \<open>urllib.request.Request(url, headers=headers)\<close>,
  \<open>urlopen env request timeout\<close> the call that goes to the network,
  \<open>decode env content encoding errors\<close> is \<open>content.decode(encoding, errors=errors)\<close>, and
  \<open>print env line\<close> is the exception that \<open>print(line)\<close> raises, if any: \<open>UnicodeEncodeError\<close>
  when the standard output cannot encode the line. The types \<open>'r\<close> of request objects and
  \<open>'t\<close> of decoded texts are left open.
\<close>

record ('r, 't) runtime =
  Request :: "py_str \<Rightarrow> (string \<times> string) list \<Rightarrow> exn + 'r"
  urlopen :: "'r \<Rightarrow> int \<Rightarrow> exn + response"
  decode :: "bytes \<Rightarrow> string \<Rightarrow> string \<Rightarrow> exn + 't"
  print :: "py_str \<Rightarrow> py_error option"

text \<open>
  What the function does to the outside: the requests it hands to \<open>urlopen\<close>, each with its
  timeout, and the lines it prints.
\<close>

record 'r world =
  network :: "('r \<times> int) list"
  stdout :: "py_str list"

text \<open>
  The argument \<open>url\<close> is any Python object; these are the kinds that matter. \<open>truthy\<close> is
  the truth value that \<open>not url\<close> negates.
\<close>

datatype py_object = NoneObj | StrObj py_str | IntObj int | BytesObj bytes

fun truthy :: "py_object \<Rightarrow> bool" where
  "truthy NoneObj = False"
| "truthy (StrObj s) = (s \<noteq> [])"
| "truthy (IntObj i) = (i \<noteq> 0)"
| "truthy (BytesObj b) = (b \<noteq> [])"

fun isinstance_str :: "py_object \<Rightarrow> bool" where
  "isinstance_str (StrObj s) = True"
| "isinstance_str _ = False"

definition headers :: "(string \<times> string) list" where
  "headers =
     [(''User-Agent'',
       ''Mozilla/5.0 (Windows NT 10.0; Win64; x64) AppleWebKit/537.36 '' @
       ''(KHTML, like Gecko) Chrome/91.0.4472.124 Safari/537.36''),
      (''Accept'',
       ''text/html,application/xhtml+xml,application/xml;q=0.9,'' @
       ''image/webp,*/*;q=0.8''),
      (''Accept-Language'', ''en-US,en;q=0.5''),
      (''Accept-Encoding'', ''gzip, deflate''),
      (''Connection'', ''keep-alive''),
      (''Upgrade-Insecure-Requests'', ''1'')]"

text \<open>The decimal numeral of a number, as an f-string prints it.\<close>

fun str_nat :: "nat \<Rightarrow> string" where
  "str_nat n =
     (if n < 10 then [char_of (48 + n)]
      else str_nat (n div 10) @ [char_of (48 + n mod 10)])"

text \<open>The line that each of the four \<open>except\<close> clauses prints.\<close>

fun notice :: "exn \<Rightarrow> py_str \<Rightarrow> py_str" where
  "notice (HTTPError code reason) url' =
     ustr ''HTTP Error '' @ ustr (str_nat code) @ ustr '': '' @ reason @ ustr '' for URL: '' @ url'"
| "notice (URLError reason) url' = ustr ''URL Error: '' @ reason @ ustr '' for URL: '' @ url'"
| "notice (ValueErr e) url' = ustr ''Value Error: '' @ e @ ustr '' for URL: '' @ url'"
| "notice (OtherException e) url' = ustr ''Unexpected error: '' @ e @ ustr '' for URL: '' @ url'"

text \<open>
  An \<open>except\<close> clause prints its line and returns \<open>None\<close>. When \<open>print\<close> raises, nothing is
  written and its exception leaves the function: the clauses of a \<open>try\<close> do not catch what
  one of them raises.
\<close>

definition handle ::
  "('r, 't) runtime \<Rightarrow> exn \<Rightarrow> py_str \<Rightarrow> 'r world \<Rightarrow> (py_error + 't option) \<times> 'r world" where
  "handle env e url' w =
     (case print env (notice e url') of
        None \<Rightarrow> (Inr None, w\<lparr>stdout := stdout w @ [notice e url']\<rparr>)
      | Some x \<Rightarrow> (Inl x, w))"

text \<open>
  In \<open>fetch_url_content\<close> the last case of the distinction on \<open>url\<close> is never reached: past
  the first test \<open>url\<close> is a text.
\<close>

definition fetch_url_content ::
  "('r, 't) runtime \<Rightarrow> py_object \<Rightarrow> int \<Rightarrow> 'r world \<Rightarrow> (py_error + 't option) \<times> 'r world" where
  "fetch_url_content env url' timeout w =
     (if \<not> truthy url' \<or> \<not> isinstance_str url' then (Inl ValueError, w)
      else case url' of
        StrObj u \<Rightarrow>
          (case Request env u headers of
             Inl e \<Rightarrow> handle env e u w
           | Inr request \<Rightarrow>
               let w' = w\<lparr>network := network w @ [(request, timeout)]\<rparr>
               in case urlopen env request timeout of
                    Inl e \<Rightarrow> handle env e u w'
                  | Inr response \<Rightarrow>
                      (case read response of
                         Inl e \<Rightarrow> handle env e u w'
                       | Inr content \<Rightarrow>
                           let encoding =
                                 (case get_content_charset response of
                                    Some c \<Rightarrow> if c \<noteq> [] then c else ''utf-8''
                                  | None \<Rightarrow> ''utf-8'')
                           in case decode env content encoding ''replace'' of
                                Inl e \<Rightarrow> handle env e u w'
                              | Inr decoded_content \<Rightarrow> (Inr (Some decoded_content), w')))
      | _ \<Rightarrow> (Inl ValueError, w))"

section \<open>Closed forms of the two loops\<close>

text \<open>
  What one row contributes, written without the loop. In \<open>parse_real_pypi_page\<close> a row
  yields at most one dictionary: the one built from its first anchor and its second and
  third cells, when it has three cells or more and the first holds an anchor.
\<close>

definition real_row_dict :: "'n selectolax \<Rightarrow> 'n \<Rightarrow> version_record option" where
  "real_row_dict L row =
     (let cells = css L ''td'' row in
      if 3 \<le> length cells then
        (case css_first L ''a'' (cells ! 0) of
           None \<Rightarrow> None
         | Some version_link \<Rightarrow>
             Some \<lparr>version = Some (strip (node_text L version_link)),
                   url = dict_get (attributes L version_link) ''href'' (Some []),
                   timestamp = strip (node_text L (cells ! 1)),
                   artifacts = PyStr (strip (node_text L (cells ! 2)))\<rparr>)
      else None)"

text \<open>
  In \<open>parse_pypi_inspector\<close> a row of three cells or more yields the outcome of
  \<open>inspector_entry\<close> on its cells, a shorter row nothing.
\<close>

definition inspector_row :: "'n selectolax \<Rightarrow> 'n \<Rightarrow> (py_error + version_record) option" where
  "inspector_row L row =
     (let cells = css L ''td'' row in
      if 3 \<le> length cells then Some (inspector_entry L cells) else None)"

section \<open>Scripted pages\<close>

text \<open>
  To run the extractor on a concrete page, the library's answers on that page are written
  out: a \<open>reply\<close> is a node together with its text, its attributes, and, for each selector,
  the nodes the library selects under it. \<open>scripted_library pages\<close> builds the scripted
  tree for each text listed in \<open>pages\<close> and a tree without any element for every other
  text; \<open>css_first\<close> is the first node of \<open>css\<close>. Of the texts of the nodes, only those the
  extractor reads (anchors, cells, the paragraph) are filled in.
\<close>

datatype reply =
  Reply (reply_text: string) (reply_attributes: "(string \<times> string option) list")
        (reply_css: "(string \<times> reply list) list")

definition scripted_library :: "(string \<times> reply) list \<Rightarrow> reply selectolax" where
  "scripted_library pages =
     \<lparr>HTMLParser = (\<lambda>content. case map_of pages content of
                                  Some r \<Rightarrow> r | None \<Rightarrow> Reply [] [] []),
      css = (\<lambda>sel n. case map_of (reply_css n) sel of Some ns \<Rightarrow> ns | None \<Rightarrow> []),
      css_first = (\<lambda>sel n. case map_of (reply_css n) sel of
                               Some (x # xs) \<Rightarrow> Some x | _ \<Rightarrow> None),
      node_text = reply_text,
      attributes = (\<lambda>n. map_of (reply_attributes n))\<rparr>"

text \<open>A table row of three cells, the first holding the given anchor.\<close>

definition data_row :: "reply \<Rightarrow> string \<Rightarrow> string \<Rightarrow> reply" where
  "data_row anchor ts n =
     Reply [] []
       [(''td'', [Reply (reply_text anchor) [] [(''a'', [anchor])],
                  Reply ts [] [],
                  Reply n [] []])]"

text \<open>A table row of three cells of plain text.\<close>

definition plain_row :: "string \<Rightarrow> string \<Rightarrow> string \<Rightarrow> reply" where
  "plain_row v ts n = Reply [] [] [(''td'', [Reply v [] [], Reply ts [] [], Reply n [] []])]"

text \<open>A row of two cells.\<close>

definition two_cell_row :: reply where
  "two_cell_row = Reply [] [] [(''td'', [Reply ''1.6.0'' [] [], Reply ''10'' [] []])]"

text \<open>A header row: its cells are \<open>th\<close> elements, so it has no \<open>td\<close>.\<close>

definition header_row :: reply where
  "header_row = Reply [] [] [(''td'', [])]"

text \<open>
  A page whose only elements of interest are the rows of one table, written without
  \<open>thead\<close>. HTML parsing puts such rows inside a \<open>tbody\<close>, and the library answers a list of
  selectors one selector after the other: for \<open>table tbody tr, table tr\<close> it lists the rows
  under the \<open>tbody\<close> and then the rows of the table, so each row of the page twice.
\<close>

definition table_page :: "reply list \<Rightarrow> reply" where
  "table_page rows =
     Reply [] [] [(''table tr'', rows), (''table tbody tr, table tr'', rows @ rows)]"

subsection \<open>The page of the example\<close>

text \<open>The text \<open>html_str\<close> at the end of \<open>dev/parse_with_selectolax.py\<close>.\<close>

definition html_str :: string where
  "html_str = ''<html><body>
    <main>
      <h1><a href=\"/\">Inspector</a></h1>
      <form action=\"/\">
          <input type=\"text\" name=\"project\" placeholder=\"Project name\" value=\"liburlparser\" autocomplete=\"off\">
        <input type=\"submit\">
      </form><p>Retrieved 20 versions.</p>

<table>
<colgroup>
  <col style=\"width: 160px\">
  <col style=\"width: 160px\">
  <col style=\"width: 160px\">
</colgroup>
<thead>
<tr>
  <th>Version</th>
  <th>Upload Timestamp</th>
  <th>Artifacts</th>
</tr>
</thead>
  <tr>
    <td><a href=\"./1.6.0\">1.6.0</a></td>
    <td>2025-05-04T13:21:22</td>
    <td>10</td>
  </tr>
  <tr>
    <td><a href=\"./1.5.0\">1.5.0</a></td>
    <td>2024-10-18T18:22:29</td>
    <td>31</td>
  </tr>
</table>
    </main>
  </body>
</html>''"

text \<open>Its two data rows; the header row stands before them, inside a \<open>thead\<close>.\<close>

definition html_str_data_rows :: "reply list" where
  "html_str_data_rows =
     [data_row (Reply ''1.6.0'' [(''href'', Some ''./1.6.0'')] []) ''2025-05-04T13:21:22'' ''10'',
      data_row (Reply ''1.5.0'' [(''href'', Some ''./1.5.0'')] []) ''2024-10-18T18:22:29'' ''31'']"

text \<open>
  The tree of the page: the input named \<open>project\<close>, the paragraph, and the rows. The table
  has the rows header, 1.6.0, 1.5.0 in this order, which is the answer to \<open>table tr\<close>. The
  two data rows stand inside the \<open>tbody\<close> that HTML parsing supplies, so the answer to
  \<open>table tbody tr, table tr\<close> is 1.6.0, 1.5.0, then header, 1.6.0, 1.5.0.
\<close>

definition html_str_tree :: reply where
  "html_str_tree =
     Reply [] []
       [(''input[name=\"project\"]'',
           [Reply [] [(''type'', Some ''text''), (''name'', Some ''project''),
                      (''placeholder'', Some ''Project name''),
                      (''value'', Some ''liburlparser''), (''autocomplete'', Some ''off'')] []]),
        (''p'', [Reply ''Retrieved 20 versions.'' [] []]),
        (''table tr'', header_row # html_str_data_rows),
        (''table tbody tr, table tr'', html_str_data_rows @ header_row # html_str_data_rows)]"

subsection \<open>Further pages\<close>

text \<open>A page with a single table of one data row and no header row.\<close>

definition one_row_html :: string where
  "one_row_html =
     ''<table><tr><td><a href=\"./1.6.0\">1.6.0</a></td>'' @
     ''<td>2025-05-04T13:21:22</td><td>10</td></tr></table>''"

definition one_row_page :: reply where
  "one_row_page =
     table_page
       [data_row (Reply ''1.6.0'' [(''href'', Some ''./1.6.0'')] []) ''2025-05-04T13:21:22'' ''10'']"

text \<open>
  The same row under a header row, with blanks around the number of artifacts.
\<close>

definition padded_html :: string where
  "padded_html =
     ''<table><tr><th>Version</th><th>Upload Timestamp</th><th>Artifacts</th></tr>'' @
     ''<tr><td><a href=\"./1.6.0\">1.6.0</a></td>'' @
     ''<td>2025-05-04T13:21:22</td><td> 10 </td></tr></table>''"

definition padded_page :: reply where
  "padded_page =
     table_page
       [header_row,
        data_row (Reply ''1.6.0'' [(''href'', Some ''./1.6.0'')] []) ''2025-05-04T13:21:22'' '' 10 '']"

text \<open>A page whose only row has three cells of plain text, the first without an anchor.\<close>

definition no_anchor_html :: string where
  "no_anchor_html =
     ''<table><tr><td>1.6.0</td><td>2025-05-04T13:21:22</td><td>10</td></tr></table>''"

definition no_anchor_page :: reply where
  "no_anchor_page = table_page [plain_row ''1.6.0'' ''2025-05-04T13:21:22'' ''10'']"

text \<open>A page whose only row links the version with an \<open>href\<close> attribute that has no value.\<close>

definition valueless_href_html :: string where
  "valueless_href_html =
     ''<table><tr><td><a href>1.6.0</a></td>'' @
     ''<td>2025-05-04T13:21:22</td><td>10</td></tr></table>''"

definition valueless_href_page :: reply where
  "valueless_href_page =
     table_page [data_row (Reply ''1.6.0'' [(''href'', None)] []) ''2025-05-04T13:21:22'' ''10'']"

text \<open>
  A page with a header row, a row of two cells, a data row and a row of three cells
  without an anchor.
\<close>

definition mixed_html :: string where
  "mixed_html =
     ''<table><tr><th>Version</th><th>Upload Timestamp</th><th>Artifacts</th></tr>'' @
     ''<tr><td>1.6.0</td><td>10</td></tr>'' @
     ''<tr><td><a href=\"./1.6.0\">1.6.0</a></td><td>2025-05-04T13:21:22</td><td>10</td></tr>'' @
     ''<tr><td>1.6.0</td><td>2025-05-04T13:21:22</td><td>10</td></tr></table>''"

definition mixed_page :: reply where
  "mixed_page =
     table_page
       [header_row,
        two_cell_row,
        data_row (Reply ''1.6.0'' [(''href'', Some ''./1.6.0'')] []) ''2025-05-04T13:21:22'' ''10'',
        plain_row ''1.6.0'' ''2025-05-04T13:21:22'' ''10'']"

subsection \<open>A scripted runtime\<close>

text \<open>
  For the fetcher. \<open>sample_Request\<close> accepts a URL that starts with a scheme and a colon
  and raises \<open>ValueError\<close> otherwise, as the constructor does; the message holds the
  \<open>repr\<close> of the URL, here for a URL made of printable characters other than the quote and
  the backslash, and of surrogates, which \<open>repr\<close> writes as escapes. \<open>scripted_urlopen net\<close>
  answers a request with the outcome listed in \<open>net\<close> for its URL and fails to resolve
  any other host. \<open>sample_decode\<close> raises \<open>LookupError\<close> for the name \<open>x-unknown\<close>, which
  is no codec, and takes any other name for a codec that decodes every content under
  \<open>errors='replace'\<close>, as \<open>utf-8\<close> and \<open>iso-8859-1\<close> are; a decoded text is kept as the call
  that returns it. \<open>utf8_print\<close> is \<open>print\<close> on a standard output encoded in UTF-8, which
  cannot encode a surrogate.
\<close>

datatype decoded = Decoded bytes string string

definition sample_decode :: "bytes \<Rightarrow> string \<Rightarrow> string \<Rightarrow> exn + decoded" where
  "sample_decode content encoding errors =
     (if encoding = ''x-unknown''
      then Inl (OtherException (ustr ''unknown encoding: '' @ ustr encoding))
      else Inr (Decoded content encoding errors))"

definition is_surrogate :: "nat \<Rightarrow> bool" where
  "is_surrogate c = (55296 \<le> c \<and> c \<le> 57343)"

definition hex_digit :: "nat \<Rightarrow> nat" where
  "hex_digit n = (if n < 10 then 48 + n else 87 + n)"

definition repr_char :: "nat \<Rightarrow> py_str" where
  "repr_char c =
     (if is_surrogate c
      then [92, 117, hex_digit (c div 4096 mod 16), hex_digit (c div 256 mod 16),
            hex_digit (c div 16 mod 16), hex_digit (c mod 16)]
      else [c])"

definition sample_repr :: "py_str \<Rightarrow> py_str" where
  "sample_repr u = [39] @ concat (map repr_char u) @ [39]"

definition sample_Request ::
  "py_str \<Rightarrow> (string \<times> string) list \<Rightarrow> exn + (py_str \<times> (string \<times> string) list)" where
  "sample_Request u hs =
     (let scheme = takeWhile (\<lambda>c. c \<noteq> 58 \<and> c \<noteq> 47) u
      in if scheme \<noteq> [] \<and> length scheme < length u \<and> u ! length scheme = 58
         then Inr (u, hs)
         else Inl (ValueErr (ustr ''unknown url type: '' @ sample_repr u)))"

definition scripted_urlopen ::
  "(py_str \<times> (exn + response)) list \<Rightarrow> py_str \<times> (string \<times> string) list \<Rightarrow> int
     \<Rightarrow> exn + response" where
  "scripted_urlopen net request timeout =
     (case map_of net (fst request) of
        Some outcome \<Rightarrow> outcome
      | None \<Rightarrow> Inl (URLError (ustr ''[Errno -2] Name or service not known'')))"

definition utf8_print :: "py_str \<Rightarrow> py_error option" where
  "utf8_print line = (if list_ex is_surrogate line then Some UnicodeEncodeError else None)"

definition scripted_runtime ::
  "(py_str \<times> (exn + response)) list \<Rightarrow> (py_str \<times> (string \<times> string) list, decoded) runtime" where
  "scripted_runtime net =
     \<lparr>Request = sample_Request, urlopen = scripted_urlopen net, decode = sample_decode,
      print = utf8_print\<rparr>"

definition empty_world :: "'r world" where
  "empty_world = \<lparr>network = [], stdout = []\<rparr>"

text \<open>
  Two networks for one URL: one answers with the status 404, the other with a page of four
  bytes whose content type declares the given charset, or none.
\<close>

definition example_url :: py_str where
  "example_url = ustr ''https://example.com''"

definition not_found_net :: "(py_str \<times> (exn + response)) list" where
  "not_found_net = [(example_url, Inl (HTTPError 404 (ustr ''Not Found'')))]"


text \<open>The text of one character, the surrogate U+D800.\<close>

definition surrogate_url :: py_str where
  "surrogate_url = [55296]"

section \<open>Properties of the extractor\<close>

subsection \<open>The loops in closed form\<close>

lemma real_entry_in_range:
  "3 \<le> length cells \<Longrightarrow>
   real_entry L cells =
     Inr (case css_first L ''a'' (cells ! 0) of
            None \<Rightarrow> None
          | Some version_link \<Rightarrow>
              Some \<lparr>version = Some (strip (node_text L version_link)),
                    url = dict_get (attributes L version_link) ''href'' (Some []),
                    timestamp = strip (node_text L (cells ! 1)),
                    artifacts = PyStr (strip (node_text L (cells ! 2)))\<rparr>)"
  by (auto simp: real_entry_def py_index_def split: option.splits)

lemma real_loop_step:
  "parse_real_pypi_page_loop L (row # rows) acc =
     parse_real_pypi_page_loop L rows
       (acc @ (case real_row_dict L row of None \<Rightarrow> [] | Some d \<Rightarrow> [d]))"
  by (simp add: real_row_dict_def Let_def real_entry_in_range split: option.splits)

lemma real_loop_closed:
  "parse_real_pypi_page_loop L rows acc = Inr (acc @ List.map_filter (real_row_dict L) rows)"
proof (induction rows arbitrary: acc)
  case Nil
  show ?case by (simp add: List.map_filter_simps)
next
  case (Cons row rows)
  show ?case
    unfolding real_loop_step Cons.IH
    by (cases "real_row_dict L row") (simp_all add: List.map_filter_simps)
qed

lemma inspector_loop_step:
  "parse_pypi_inspector_loop L (row # rows) acc =
     (case inspector_row L row of
        None \<Rightarrow> parse_pypi_inspector_loop L rows acc
      | Some (Inl e) \<Rightarrow> Inl e
      | Some (Inr d) \<Rightarrow> parse_pypi_inspector_loop L rows (acc @ [d]))"
  by (simp add: inspector_row_def Let_def)

lemma inspector_loop_Inr:
  "parse_pypi_inspector_loop L rows acc = Inr vs \<Longrightarrow>
   \<exists>ds. vs = acc @ ds \<and> map Inr ds = List.map_filter (inspector_row L) rows"
proof (induction rows arbitrary: acc)
  case Nil
  then show ?case by (simp add: List.map_filter_simps)
next
  case (Cons row rows)
  note step = Cons.prems [unfolded inspector_loop_step]
  show ?case
  proof (cases "inspector_row L row")
    case None
    with step have "parse_pypi_inspector_loop L rows acc = Inr vs" by simp
    from Cons.IH [OF this] None show ?thesis by (simp add: List.map_filter_simps)
  next
    case (Some x)
    show ?thesis
    proof (cases x)
      case (Inl e)
      with Some step show ?thesis by simp
    next
      case (Inr d)
      with Some step have "parse_pypi_inspector_loop L rows (acc @ [d]) = Inr vs"
        by simp
      from Cons.IH [OF this] obtain ds where "vs = (acc @ [d]) @ ds"
        and "map Inr ds = List.map_filter (inspector_row L) rows" by blast
      with Some Inr show ?thesis by (simp add: List.map_filter_simps)
    qed
  qed
qed

lemma map_filter_length: "length (List.map_filter f xs) \<le> length xs"
  by (simp add: List.map_filter_def)

lemma parse_real_pypi_page_closed:
  "parse_real_pypi_page L html_str' =
     Inr \<lparr>project =
             (case css_first L ''input[name=\"project\"]'' (HTMLParser L html_str') of
                Some i \<Rightarrow> dict_get (attributes L i) ''value'' (Some [])
              | None \<Rightarrow> None),
          version_count =
             (case css_first L ''p'' (HTMLParser L html_str') of
                Some p \<Rightarrow> Some (node_text L p)
              | None \<Rightarrow> None),
          versions =
             List.map_filter (real_row_dict L)
               (css L ''table tbody tr, table tr'' (HTMLParser L html_str'))\<rparr>"
  by (simp add: parse_real_pypi_page_def real_loop_closed Let_def)


lemma real_row_dict_SomeD:
  "real_row_dict L row = Some v \<Longrightarrow>
   \<exists>link. 3 \<le> length (css L ''td'' row) \<and>
      css_first L ''a'' (css L ''td'' row ! 0) = Some link \<and>
      version v = Some (strip (node_text L link)) \<and>
      url v = (case attributes L link ''href'' of None \<Rightarrow> Some [] | Some h \<Rightarrow> h) \<and>
      timestamp v = strip (node_text L (css L ''td'' row ! 1)) \<and>
      artifacts v = PyStr (strip (node_text L (css L ''td'' row ! 2)))"
  by (auto simp: real_row_dict_def Let_def dict_get_def split: if_splits option.splits)

lemma map_filter_set: "v \<in> set (List.map_filter f xs) \<Longrightarrow> \<exists>x \<in> set xs. f x = Some v"
  by (auto simp: List.map_filter_def)

lemma map_filter_mem: "x \<in> set xs \<Longrightarrow> f x = Some v \<Longrightarrow> v \<in> set (List.map_filter f xs)"
  by (force simp: List.map_filter_def)

lemma decimal_not_space: "py_isdecimal c \<Longrightarrow> \<not> int_isspace c"
  by (auto simp: py_isdecimal_def int_isspace_def Let_def)

lemma decimal_not_mark:
  "py_isdecimal c \<Longrightarrow> c \<noteq> CHR ''_'' \<and> c \<noteq> CHR ''-'' \<and> c \<noteq> CHR ''+''"
  by (auto simp: py_isdecimal_def Let_def)

lemma int_strip_no_space:
  assumes "\<forall>c \<in> set s. \<not> int_isspace c"
  shows "rev (dropWhile int_isspace (rev (dropWhile int_isspace s))) = s"
proof -
  from assms have 1: "dropWhile int_isspace s = s"
    by (cases s) simp_all
  from assms have "\<forall>c \<in> set (rev s). \<not> int_isspace c" by simp
  then have 2: "dropWhile int_isspace (rev s) = rev s"
    by (cases "rev s") simp_all
  show ?thesis by (simp add: 1 2)
qed

lemma digits_ok_decimal: "s \<noteq> [] \<Longrightarrow> list_all py_isdecimal s \<Longrightarrow> digits_ok s"
  by (induction s rule: digits_ok.induct) (auto dest: decimal_not_mark)

lemma py_int_decimal:
  assumes "s \<noteq> []" and "list_all py_isdecimal s" and "length s \<le> int_max_str_digits"
  shows "py_int s = Inr (decimal_value s)"
proof -
  from assms(2) have all: "\<forall>c \<in> set s. py_isdecimal c" by (simp add: list_all_iff)
  then have st: "rev (dropWhile int_isspace (rev (dropWhile int_isspace s))) = s"
    by (intro int_strip_no_space) (blast dest: decimal_not_space)
  from assms(1) all have hd: "hd s \<noteq> CHR ''-''" "hd s \<noteq> CHR ''+''"
    by (cases s; simp add: decimal_not_mark)+
  from all have flt: "filter (\<lambda>c. c \<noteq> CHR ''_'') s = s"
    by (intro filter_True) (blast dest: decimal_not_mark)
  show ?thesis
    using assms digits_ok_decimal [OF assms(1,2)]
    by (simp add: py_int_def st hd flt Let_def)
qed

lemma decimal_isdigit: "s \<noteq> [] \<Longrightarrow> list_all py_isdecimal s \<Longrightarrow> isdigit s"
  by (simp add: isdigit_def py_isdigit_char_def list_all_iff)

lemma inspector_entry_in_range:
  "3 \<le> length cells \<Longrightarrow>
   inspector_entry L cells =
     (let version_link = css_first L ''a'' (cells ! 0);
          t = node_text L (cells ! 2)
      in case (if isdigit t then map_sum id PyInt (py_int t) else Inr (PyStr t)) of
           Inl e \<Rightarrow> Inl e
         | Inr a \<Rightarrow>
             Inr \<lparr>version = (case version_link of Some a \<Rightarrow> Some (node_text L a) | None \<Rightarrow> None),
                  url = (case version_link of
                           Some a \<Rightarrow> dict_get (attributes L a) ''href'' (Some [])
                         | None \<Rightarrow> None),
                  timestamp = node_text L (cells ! 1),
                  artifacts = a\<rparr>)"
  by (auto simp: inspector_entry_def py_index_def Let_def split: sum.splits)

lemma artifacts_entry_int:
  assumes "3 \<le> length cells"
    and "node_text L (cells ! 2) \<noteq> []"
    and "list_all py_isdecimal (node_text L (cells ! 2))"
    and "length (node_text L (cells ! 2)) \<le> int_max_str_digits"
  shows "\<exists>d. inspector_entry L cells = Inr d \<and>
             artifacts d = PyInt (decimal_value (node_text L (cells ! 2)))"
  using assms(2-4)
  by (simp add: inspector_entry_in_range [OF assms(1)] Let_def decimal_isdigit py_int_decimal)

lemma artifacts_entry_text:
  assumes "3 \<le> length cells" and "\<not> isdigit (node_text L (cells ! 2))"
  shows "\<exists>d. inspector_entry L cells = Inr d \<and> artifacts d = PyStr (node_text L (cells ! 2))"
  using assms(2) by (simp add: inspector_entry_in_range [OF assms(1)] Let_def)

text \<open>
  Both functions follow the list that \<open>css\<close> returns: the records are those of the entries
  of the list that yield one, in the order of the list.
\<close>

lemma records_follow_listing:
  "(\<exists>r. parse_real_pypi_page L content = Inr r \<and>
        versions r =
          map (the \<circ> real_row_dict L)
            (filter (\<lambda>row. real_row_dict L row \<noteq> None)
               (css L ''table tbody tr, table tr'' (HTMLParser L content))) \<and>
        length (versions r) \<le> length (css L ''table tbody tr, table tr'' (HTMLParser L content))) \<and>
   (\<forall>vs. parse_pypi_inspector L content = Inr vs \<longrightarrow>
        map Inr vs =
          map (the \<circ> inspector_row L)
            (filter (\<lambda>row. inspector_row L row \<noteq> None)
               (drop 1 (css L ''table tr'' (HTMLParser L content)))) \<and>
        length vs \<le> length (css L ''table tr'' (HTMLParser L content))) \<and>
   (\<forall>row. length (css L ''td'' row) < 3 \<longrightarrow>
        real_row_dict L row = None \<and> inspector_row L row = None)"
proof (intro conjI allI impI)
  show "\<exists>r. parse_real_pypi_page L content = Inr r \<and>
        versions r =
          map (the \<circ> real_row_dict L)
            (filter (\<lambda>row. real_row_dict L row \<noteq> None)
               (css L ''table tbody tr, table tr'' (HTMLParser L content))) \<and>
        length (versions r) \<le> length (css L ''table tbody tr, table tr'' (HTMLParser L content))"
    using map_filter_length [of "real_row_dict L"]
    by (simp add: parse_real_pypi_page_closed) (simp add: List.map_filter_def)
next
  fix vs assume "parse_pypi_inspector L content = Inr vs"
  then have "parse_pypi_inspector_loop L (drop 1 (css L ''table tr'' (HTMLParser L content))) [] = Inr vs"
    by (simp add: parse_pypi_inspector_def Let_def)
  from inspector_loop_Inr [OF this]
  have eq: "map Inr vs = List.map_filter (inspector_row L) (drop 1 (css L ''table tr'' (HTMLParser L content)))"
    by simp
  then show "map Inr vs =
          map (the \<circ> inspector_row L)
            (filter (\<lambda>row. inspector_row L row \<noteq> None)
               (drop 1 (css L ''table tr'' (HTMLParser L content))))"
    by (simp add: List.map_filter_def)
  have "length (map Inr vs :: (py_error + version_record) list) \<le> length (drop 1 (css L ''table tr'' (HTMLParser L content)))"
    unfolding eq by (rule map_filter_length)
  then show "length vs \<le> length (css L ''table tr'' (HTMLParser L content))"
    by simp
next
  fix row assume "length (css L ''td'' row) < 3"
  then show "real_row_dict L row = None" by (simp add: real_row_dict_def)
next
  fix row assume "length (css L ''td'' row) < 3"
  then show "inspector_row L row = None" by (simp add: inspector_row_def)
qed

subsection \<open>The page of the example\<close>

text \<open>
  Claim C1, as the code has it. On the example page \<open>parse_real_pypi_page\<close> returns the
  project \<open>liburlparser\<close> and the message \<open>Retrieved 20 versions.\<close>; its first two records
  are those of the versions 1.6.0 and 1.5.0, in this order, with the urls and timestamps
  of the page and with the texts \<open>10\<close> and \<open>31\<close> as artifacts, and it has no record other
  than these two.
\<close>

theorem example_page:
  "(case parse_real_pypi_page (scripted_library [(html_str, html_str_tree)]) html_str of
      Inr r \<Rightarrow>
        project r = Some ''liburlparser'' \<and>
        version_count r = Some ''Retrieved 20 versions.'' \<and>
        take 2 (versions r) =
            [\<lparr>version = Some ''1.6.0'', url = Some ''./1.6.0'',
               timestamp = ''2025-05-04T13:21:22'', artifacts = PyStr ''10''\<rparr>,
             \<lparr>version = Some ''1.5.0'', url = Some ''./1.5.0'',
               timestamp = ''2024-10-18T18:22:29'', artifacts = PyStr ''31''\<rparr>] \<and>
        set (versions r) =
            {\<lparr>version = Some ''1.6.0'', url = Some ''./1.6.0'',
               timestamp = ''2025-05-04T13:21:22'', artifacts = PyStr ''10''\<rparr>,
             \<lparr>version = Some ''1.5.0'', url = Some ''./1.5.0'',
               timestamp = ''2024-10-18T18:22:29'', artifacts = PyStr ''31''\<rparr>}
    | Inl e \<Rightarrow> False)"
  by code_simp

text \<open>
  The claim has exactly two records, with the integers 10 and 31 as artifacts. The run
  gives the records of the two data rows twice, with texts as artifacts.
\<close>

theorem example_page_counterexample:
  "parse_real_pypi_page (scripted_library [(html_str, html_str_tree)]) html_str =
     Inr \<lparr>project = Some ''liburlparser'',
          version_count = Some ''Retrieved 20 versions.'',
          versions =
            [\<lparr>version = Some ''1.6.0'', url = Some ''./1.6.0'',
               timestamp = ''2025-05-04T13:21:22'', artifacts = PyStr ''10''\<rparr>,
             \<lparr>version = Some ''1.5.0'', url = Some ''./1.5.0'',
               timestamp = ''2024-10-18T18:22:29'', artifacts = PyStr ''31''\<rparr>,
             \<lparr>version = Some ''1.6.0'', url = Some ''./1.6.0'',
               timestamp = ''2025-05-04T13:21:22'', artifacts = PyStr ''10''\<rparr>,
             \<lparr>version = Some ''1.5.0'', url = Some ''./1.5.0'',
               timestamp = ''2024-10-18T18:22:29'', artifacts = PyStr ''31''\<rparr>]\<rparr>"
  by code_simp

subsection \<open>The artifacts cell\<close>

text \<open>
  Claim C2, as the code has it. For a row of three cells or more: \<open>parse_pypi_inspector\<close>
  stores the integer when the text of the third cell, taken as it stands, is a non-empty
  run of decimal digits within the interpreter's limit, and stores that text unchanged and
  untrimmed when it is not made of digits; \<open>parse_real_pypi_page\<close> always stores the trimmed
  text.
\<close>

theorem artifacts_coercion:
  assumes "3 \<le> length cells"
  shows "(node_text L (cells ! 2) \<noteq> [] \<and> list_all py_isdecimal (node_text L (cells ! 2)) \<and>
          length (node_text L (cells ! 2)) \<le> int_max_str_digits \<longrightarrow>
            (\<exists>d. inspector_entry L cells = Inr d \<and>
                 artifacts d = PyInt (decimal_value (node_text L (cells ! 2))))) \<and>
         (\<not> isdigit (node_text L (cells ! 2)) \<longrightarrow>
            (\<exists>d. inspector_entry L cells = Inr d \<and>
                 artifacts d = PyStr (node_text L (cells ! 2)))) \<and>
         (\<forall>d. real_entry L cells = Inr (Some d) \<longrightarrow>
            artifacts d = PyStr (strip (node_text L (cells ! 2))))"
proof (intro conjI impI allI)
  assume "node_text L (cells ! 2) \<noteq> [] \<and> list_all py_isdecimal (node_text L (cells ! 2)) \<and>
          length (node_text L (cells ! 2)) \<le> int_max_str_digits"
  then show "\<exists>d. inspector_entry L cells = Inr d \<and>
                 artifacts d = PyInt (decimal_value (node_text L (cells ! 2)))"
    by (simp add: inspector_entry_in_range [OF assms] Let_def decimal_isdigit py_int_decimal)
next
  assume "\<not> isdigit (node_text L (cells ! 2))"
  then show "\<exists>d. inspector_entry L cells = Inr d \<and> artifacts d = PyStr (node_text L (cells ! 2))"
    by (simp add: inspector_entry_in_range [OF assms] Let_def)
next
  fix d assume "real_entry L cells = Inr (Some d)"
  then show "artifacts d = PyStr (strip (node_text L (cells ! 2)))"
    by (auto simp: real_entry_in_range [OF assms] split: option.splits)
qed

theorem artifacts_coercion_witness:
  "(\<exists>d. inspector_entry (scripted_library [])
          [Reply ''1.6.0'' [] [], Reply ''2025-05-04T13:21:22'' [] [], Reply ''10'' [] []] = Inr d \<and>
        artifacts d = PyInt 10) \<and>
   (\<exists>d. inspector_entry (scripted_library [])
          [Reply ''1.6.0'' [] [], Reply ''2025-05-04T13:21:22'' [] [], Reply ''10 (estimate)'' [] []] = Inr d \<and>
        artifacts d = PyStr ''10 (estimate)'')"
proof -
  have a: "decimal_value ''10'' = 10"
    by (simp add: decimal_value_def digit_value_def)
  have b: "list_all py_isdecimal ''10''" "\<not> isdigit ''10 (estimate)''"
    by (simp_all add: py_isdecimal_def isdigit_def py_isdigit_char_def)
  show ?thesis
    using artifacts_coercion [of "[Reply ''1.6.0'' [] [], Reply ''2025-05-04T13:21:22'' [] [], Reply ''10'' [] []]" "scripted_library []"]
      artifacts_coercion [of "[Reply ''1.6.0'' [] [], Reply ''2025-05-04T13:21:22'' [] [], Reply ''10 (estimate)'' [] []]" "scripted_library []"]
      a b
    by (simp add: scripted_library_def int_max_str_digits_def)
qed

text \<open>
  In \<open>parse_pypi_inspector\<close> the cell \<open> 10 \<close>, whose trimmed text is \<open>10\<close>, is stored as the
  untrimmed text; in \<open>parse_real_pypi_page\<close> the cell \<open>10\<close> is stored as a text.
\<close>

theorem artifacts_coercion_counterexample:
  "parse_pypi_inspector (scripted_library [(padded_html, padded_page)]) padded_html =
     Inr [\<lparr>version = Some ''1.6.0'', url = Some ''./1.6.0'',
           timestamp = ''2025-05-04T13:21:22'', artifacts = PyStr '' 10 ''\<rparr>] \<and>
   strip '' 10 '' = ''10'' \<and>
   (case parse_real_pypi_page (scripted_library [(one_row_html, one_row_page)]) one_row_html of
      Inr r \<Rightarrow> versions r \<noteq> [] \<and> PyInt 10 \<notin> set (map artifacts (versions r)) \<and>
                PyStr ''10'' \<in> set (map artifacts (versions r))
    | Inl e \<Rightarrow> False)"
  by code_simp

subsection \<open>Rows of two and of three cells\<close>

text \<open>
  Claim C3, as the code has it. A row of exactly two cells is skipped by both loops. In
  \<open>parse_real_pypi_page\<close> a row of exactly three cells that the selectors list is included,
  its record being among the versions, when its first cell holds an anchor, and is skipped
  when it does not. In \<open>parse_pypi_inspector\<close>, when it returns, a row of exactly three
  cells listed after the first row is included.
\<close>

theorem row_skip_rule:
  "(length (css L ''td'' row) = 2 \<longrightarrow>
      parse_real_pypi_page_loop L (row # rows) acc = parse_real_pypi_page_loop L rows acc \<and>
      parse_pypi_inspector_loop L (row # rows) acc = parse_pypi_inspector_loop L rows acc) \<and>
   (row \<in> set (css L ''table tbody tr, table tr'' (HTMLParser L content)) \<and>
    length (css L ''td'' row) = 3 \<and> css_first L ''a'' (css L ''td'' row ! 0) = Some link \<longrightarrow>
      (\<exists>r. parse_real_pypi_page L content = Inr r \<and>
           \<lparr>version = Some (strip (node_text L link)),
            url = dict_get (attributes L link) ''href'' (Some []),
            timestamp = strip (node_text L (css L ''td'' row ! 1)),
            artifacts = PyStr (strip (node_text L (css L ''td'' row ! 2)))\<rparr>
             \<in> set (versions r))) \<and>
   (length (css L ''td'' row) = 3 \<and> css_first L ''a'' (css L ''td'' row ! 0) = None \<longrightarrow>
      parse_real_pypi_page_loop L (row # rows) acc = parse_real_pypi_page_loop L rows acc) \<and>
   (row \<in> set (drop 1 (css L ''table tr'' (HTMLParser L content))) \<and>
    length (css L ''td'' row) = 3 \<and> parse_pypi_inspector L content = Inr vs \<longrightarrow>
      (\<exists>d. inspector_entry L (css L ''td'' row) = Inr d \<and> d \<in> set vs))"
proof (intro conjI impI)
  assume "length (css L ''td'' row) = 2"
  then show "parse_real_pypi_page_loop L (row # rows) acc = parse_real_pypi_page_loop L rows acc"
    by simp
next
  assume "length (css L ''td'' row) = 2"
  then show "parse_pypi_inspector_loop L (row # rows) acc = parse_pypi_inspector_loop L rows acc"
    by simp
next
  let ?d = "\<lparr>version = Some (strip (node_text L link)),
            url = dict_get (attributes L link) ''href'' (Some []),
            timestamp = strip (node_text L (css L ''td'' row ! 1)),
            artifacts = PyStr (strip (node_text L (css L ''td'' row ! 2)))\<rparr>"
  assume a: "row \<in> set (css L ''table tbody tr, table tr'' (HTMLParser L content)) \<and>
    length (css L ''td'' row) = 3 \<and> css_first L ''a'' (css L ''td'' row ! 0) = Some link"
  then have "real_row_dict L row = Some ?d"
    by (simp add: real_row_dict_def Let_def)
  with a have "?d \<in> set (List.map_filter (real_row_dict L)
                  (css L ''table tbody tr, table tr'' (HTMLParser L content)))"
    by (blast intro: map_filter_mem)
  then show "\<exists>r. parse_real_pypi_page L content = Inr r \<and> ?d \<in> set (versions r)"
    by (simp add: parse_real_pypi_page_closed)
next
  assume "length (css L ''td'' row) = 3 \<and> css_first L ''a'' (css L ''td'' row ! 0) = None"
  then have "real_row_dict L row = None" by (simp add: real_row_dict_def)
  then show "parse_real_pypi_page_loop L (row # rows) acc = parse_real_pypi_page_loop L rows acc"
    by (subst real_loop_step) simp
next
  let ?rows = "drop 1 (css L ''table tr'' (HTMLParser L content))"
  assume a: "row \<in> set ?rows \<and> length (css L ''td'' row) = 3 \<and>
    parse_pypi_inspector L content = Inr vs"
  then have "parse_pypi_inspector_loop L ?rows [] = Inr vs"
    by (simp add: parse_pypi_inspector_def Let_def)
  from inspector_loop_Inr [OF this]
  have eq: "map Inr vs = List.map_filter (inspector_row L) ?rows" by simp
  from a have "inspector_row L row = Some (inspector_entry L (css L ''td'' row))"
    by (simp add: inspector_row_def)
  with a have "inspector_entry L (css L ''td'' row) \<in> set (List.map_filter (inspector_row L) ?rows)"
    by (blast intro: map_filter_mem)
  with eq have "inspector_entry L (css L ''td'' row) \<in> Inr ` set vs"
    by (metis set_map)
  then show "\<exists>d. inspector_entry L (css L ''td'' row) = Inr d \<and> d \<in> set vs"
    by blast
qed

theorem row_skip_rule_witness:
  "parse_real_pypi_page_loop (scripted_library []) [two_cell_row] [] = Inr [] \<and>
   parse_pypi_inspector_loop (scripted_library []) [two_cell_row] [] = Inr [] \<and>
   (\<exists>r. parse_real_pypi_page (scripted_library [(mixed_html, mixed_page)]) mixed_html = Inr r \<and>
        \<lparr>version = Some ''1.6.0'', url = Some ''./1.6.0'',
         timestamp = ''2025-05-04T13:21:22'', artifacts = PyStr ''10''\<rparr> \<in> set (versions r)) \<and>
   parse_real_pypi_page_loop (scripted_library [])
     [plain_row ''1.6.0'' ''2025-05-04T13:21:22'' ''10''] [] = Inr [] \<and>
   (\<exists>d. inspector_entry (scripted_library [(mixed_html, mixed_page)])
          (css (scripted_library [(mixed_html, mixed_page)]) ''td''
             (data_row (Reply ''1.6.0'' [(''href'', Some ''./1.6.0'')] [])
                ''2025-05-04T13:21:22'' ''10'')) = Inr d \<and>
        d \<in> set [\<lparr>version = Some ''1.6.0'', url = Some ''./1.6.0'',
                   timestamp = ''2025-05-04T13:21:22'', artifacts = PyInt 10\<rparr>,
                  \<lparr>version = None, url = None,
                   timestamp = ''2025-05-04T13:21:22'', artifacts = PyInt 10\<rparr>])"
proof -
  let ?E = "scripted_library [] :: reply selectolax"
  let ?L = "scripted_library [(mixed_html, mixed_page)]"
  let ?anchor = "Reply ''1.6.0'' [(''href'', Some ''./1.6.0'')] []"
  let ?data = "data_row ?anchor ''2025-05-04T13:21:22'' ''10''"
  let ?plain = "plain_row ''1.6.0'' ''2025-05-04T13:21:22'' ''10''"
  let ?vs = "[\<lparr>version = Some ''1.6.0'', url = Some ''./1.6.0'',
                   timestamp = ''2025-05-04T13:21:22'', artifacts = PyInt 10\<rparr>,
                  \<lparr>version = None, url = None,
                   timestamp = ''2025-05-04T13:21:22'', artifacts = PyInt 10\<rparr>]"
  have two: "length (css ?E ''td'' two_cell_row) = 2"
    by (simp add: scripted_library_def two_cell_row_def)
  have listed: "?data \<in> set (css ?L ''table tbody tr, table tr'' (HTMLParser ?L mixed_html))"
    by (simp add: scripted_library_def mixed_page_def table_page_def)
  have data: "length (css ?L ''td'' ?data) = 3 \<and>
      css_first ?L ''a'' (css ?L ''td'' ?data ! 0) = Some ?anchor"
    by (simp add: scripted_library_def data_row_def)
  have plain: "length (css ?E ''td'' ?plain) = 3 \<and> css_first ?E ''a'' (css ?E ''td'' ?plain ! 0) = None"
    by (simp add: scripted_library_def plain_row_def)
  have after: "?data \<in> set (drop 1 (css ?L ''table tr'' (HTMLParser ?L mixed_html)))"
    by (simp add: scripted_library_def mixed_page_def table_page_def)
  have run: "parse_pypi_inspector ?L mixed_html = Inr ?vs"
    by code_simp
  from row_skip_rule [of ?E two_cell_row "[]" "[]"] two
  have 1: "parse_real_pypi_page_loop ?E [two_cell_row] [] = Inr []"
    and 2: "parse_pypi_inspector_loop ?E [two_cell_row] [] = Inr []"
    by simp_all
  from row_skip_rule [of ?L ?data _ _ mixed_html ?anchor] listed data
  have 3: "\<exists>r. parse_real_pypi_page ?L mixed_html = Inr r \<and>
        \<lparr>version = Some ''1.6.0'', url = Some ''./1.6.0'',
         timestamp = ''2025-05-04T13:21:22'', artifacts = PyStr ''10''\<rparr> \<in> set (versions r)"
    by (simp add: scripted_library_def data_row_def dict_get_def strip_def py_isspace_def)
  from row_skip_rule [of ?E ?plain "[]" "[]"] plain
  have 4: "parse_real_pypi_page_loop ?E [?plain] [] = Inr []"
    by (simp del: parse_real_pypi_page_loop.simps(2))
  from row_skip_rule [of ?L ?data _ _ mixed_html _ ?vs] after data run
  have 5: "\<exists>d. inspector_entry ?L (css ?L ''td'' ?data) = Inr d \<and> d \<in> set ?vs"
    by blast
  from 1 2 3 4 5 show ?thesis by blast
qed

text \<open>A row of exactly three cells, none with an anchor, is not included.\<close>

theorem row_skip_rule_counterexample:
  "length (css (scripted_library []) ''td'' (plain_row ''1.6.0'' ''2025-05-04T13:21:22'' ''10'')) = 3 \<and>
   parse_real_pypi_page (scripted_library [(no_anchor_html, no_anchor_page)]) no_anchor_html =
     Inr \<lparr>project = None, version_count = None, versions = []\<rparr>"
  by code_simp

subsection \<open>Absent elements\<close>

text \<open>
  Claim C5. For every library and every input text, \<open>parse_real_pypi_page\<close> returns a
  result and never raises. The three fields are filled independently, each from its own
  query: the project from the input element named \<open>project\<close>, the message from the first
  paragraph, the versions from the table rows. The project is absent when no such input
  element is found, the message is absent when no paragraph is found, and the versions
  are the empty list when no table row is found.
\<close>

theorem extraction_tolerates_absence:
  "\<exists>r. parse_real_pypi_page L html_str' = Inr r \<and>
       project r =
         (case css_first L ''input[name=\"project\"]'' (HTMLParser L html_str') of
            Some i \<Rightarrow> dict_get (attributes L i) ''value'' (Some [])
          | None \<Rightarrow> None) \<and>
       version_count r =
         (case css_first L ''p'' (HTMLParser L html_str') of
            Some p \<Rightarrow> Some (node_text L p)
          | None \<Rightarrow> None) \<and>
       parse_real_pypi_page_loop L (css L ''table tbody tr, table tr'' (HTMLParser L html_str')) [] =
         Inr (versions r) \<and>
       (css_first L ''input[name=\"project\"]'' (HTMLParser L html_str') = None
          \<longrightarrow> project r = None) \<and>
       (css_first L ''p'' (HTMLParser L html_str') = None \<longrightarrow> version_count r = None) \<and>
       (css L ''table tbody tr, table tr'' (HTMLParser L html_str') = []
          \<longrightarrow> versions r = [])"
  by (simp add: parse_real_pypi_page_closed real_loop_closed List.map_filter_simps)

text \<open>The empty text, on which the library finds no element at all.\<close>

theorem extraction_tolerates_absence_witness:
  "parse_real_pypi_page (scripted_library []) [] =
     Inr \<lparr>project = None, version_count = None, versions = []\<rparr>"
  using extraction_tolerates_absence [of "scripted_library []" "[]"]
  by (auto simp: scripted_library_def)

subsection \<open>Records and rows\<close>

text \<open>
  Claim C6 fails on the code for \<open>parse_real_pypi_page\<close>. The selector list
  \<open>table tbody tr, table tr\<close> lists a row under \<open>tbody\<close> twice, so a table of one row gives
  two records, more than it has rows, and the example page, whose table has the rows
  header, 1.6.0, 1.5.0, gives the records 1.6.0, 1.5.0, 1.6.0, 1.5.0, which is not the
  order of its rows.
\<close>

theorem records_exceed_table_rows:
  "length (css (scripted_library [(one_row_html, one_row_page)]) ''table tr''
             (HTMLParser (scripted_library [(one_row_html, one_row_page)]) one_row_html)) = 1 \<and>
   map_sum id (\<lambda>r. map version (versions r))
     (parse_real_pypi_page (scripted_library [(one_row_html, one_row_page)]) one_row_html) =
     Inr [Some ''1.6.0'', Some ''1.6.0''] \<and>
   map_sum id (\<lambda>r. map version (versions r))
     (parse_real_pypi_page (scripted_library [(html_str, html_str_tree)]) html_str) =
     Inr [Some ''1.6.0'', Some ''1.5.0'', Some ''1.6.0'', Some ''1.5.0'']"
  by code_simp

subsection \<open>The first row in \<open>parse_pypi_inspector\<close>\<close>

text \<open>
  Claim C9. \<open>parse_pypi_inspector\<close> leaves the first row matched by \<open>table tr\<close> out of its
  loop, whatever the row holds: its result is the result of the loop on the rows after
  the first. In particular a table whose only row is a data row gives no record.
\<close>

theorem first_row_never_reported:
  assumes "css L ''table tr'' (HTMLParser L content) = row # rows"
  shows "parse_pypi_inspector L content = parse_pypi_inspector_loop L rows [] \<and>
         (rows = [] \<longrightarrow> parse_pypi_inspector L content = Inr [])"
  using assms by (auto simp add: parse_pypi_inspector_def Let_def)

theorem first_row_never_reported_witness:
  "css (scripted_library [(one_row_html, one_row_page)]) ''table tr''
     (HTMLParser (scripted_library [(one_row_html, one_row_page)]) one_row_html) =
     [data_row (Reply ''1.6.0'' [(''href'', Some ''./1.6.0'')] []) ''2025-05-04T13:21:22'' ''10''] \<and>
   parse_pypi_inspector (scripted_library [(one_row_html, one_row_page)]) one_row_html = Inr []"
proof -
  have rows: "css (scripted_library [(one_row_html, one_row_page)]) ''table tr''
     (HTMLParser (scripted_library [(one_row_html, one_row_page)]) one_row_html) =
     [data_row (Reply ''1.6.0'' [(''href'', Some ''./1.6.0'')] []) ''2025-05-04T13:21:22'' ''10'']"
    by (simp add: scripted_library_def one_row_page_def table_page_def)
  from first_row_never_reported [OF rows] rows show ?thesis by simp
qed

subsection \<open>The fields of a record of \<open>parse_real_pypi_page\<close>\<close>

text \<open>
  Claim C10, as the code has it. Every record of \<open>parse_real_pypi_page\<close> comes from a row
  of three cells or more whose first cell holds an anchor; its version, timestamp and
  artifacts are the trimmed texts of the anchor, the second and the third cell, the
  artifacts never an integer; its url is the value of the anchor's \<open>href\<close>, the empty text
  when the anchor has no such attribute, and absent when the attribute is written without
  a value. A row whose first cell holds no anchor is skipped.
\<close>

theorem real_records_shape:
  "(\<exists>r. parse_real_pypi_page L content = Inr r \<and>
     (\<forall>v \<in> set (versions r).
        \<exists>row \<in> set (css L ''table tbody tr, table tr'' (HTMLParser L content)). \<exists>link.
          3 \<le> length (css L ''td'' row) \<and>
          css_first L ''a'' (css L ''td'' row ! 0) = Some link \<and>
          version v = Some (strip (node_text L link)) \<and>
          url v = (case attributes L link ''href'' of None \<Rightarrow> Some [] | Some h \<Rightarrow> h) \<and>
          timestamp v = strip (node_text L (css L ''td'' row ! 1)) \<and>
          artifacts v = PyStr (strip (node_text L (css L ''td'' row ! 2))))) \<and>
   (3 \<le> length (css L ''td'' row) \<and> css_first L ''a'' (css L ''td'' row ! 0) = None \<longrightarrow>
      parse_real_pypi_page_loop L (row # rows) acc = parse_real_pypi_page_loop L rows acc)"
proof (intro conjI impI)
  show "\<exists>r. parse_real_pypi_page L content = Inr r \<and>
     (\<forall>v \<in> set (versions r).
        \<exists>row \<in> set (css L ''table tbody tr, table tr'' (HTMLParser L content)). \<exists>link.
          3 \<le> length (css L ''td'' row) \<and>
          css_first L ''a'' (css L ''td'' row ! 0) = Some link \<and>
          version v = Some (strip (node_text L link)) \<and>
          url v = (case attributes L link ''href'' of None \<Rightarrow> Some [] | Some h \<Rightarrow> h) \<and>
          timestamp v = strip (node_text L (css L ''td'' row ! 1)) \<and>
          artifacts v = PyStr (strip (node_text L (css L ''td'' row ! 2))))"
  proof -
    let ?rows = "css L ''table tbody tr, table tr'' (HTMLParser L content)"
    have "\<exists>row \<in> set ?rows. \<exists>link.
          3 \<le> length (css L ''td'' row) \<and>
          css_first L ''a'' (css L ''td'' row ! 0) = Some link \<and>
          version v = Some (strip (node_text L link)) \<and>
          url v = (case attributes L link ''href'' of None \<Rightarrow> Some [] | Some h \<Rightarrow> h) \<and>
          timestamp v = strip (node_text L (css L ''td'' row ! 1)) \<and>
          artifacts v = PyStr (strip (node_text L (css L ''td'' row ! 2)))"
      if "v \<in> set (List.map_filter (real_row_dict L) ?rows)" for v
    proof -
      from that obtain row where row: "row \<in> set ?rows" "real_row_dict L row = Some v"
        using map_filter_set by fast
      from real_row_dict_SomeD [OF row(2)] row(1) show ?thesis by blast
    qed
    then show ?thesis
      unfolding parse_real_pypi_page_closed by simp
  qed
next
  assume "3 \<le> length (css L ''td'' row) \<and> css_first L ''a'' (css L ''td'' row ! 0) = None"
  then have "real_row_dict L row = None" by (simp add: real_row_dict_def)
  then show "parse_real_pypi_page_loop L (row # rows) acc = parse_real_pypi_page_loop L rows acc"
    by (subst real_loop_step) simp
qed

theorem real_records_shape_witness:
  "\<exists>row \<in> set (css (scripted_library [(valueless_href_html, valueless_href_page)])
                  ''table tbody tr, table tr''
                  (HTMLParser (scripted_library [(valueless_href_html, valueless_href_page)])
                     valueless_href_html)).
     \<exists>link. css_first (scripted_library [(valueless_href_html, valueless_href_page)]) ''a''
               (css (scripted_library [(valueless_href_html, valueless_href_page)]) ''td'' row ! 0) =
             Some link \<and>
            attributes (scripted_library [(valueless_href_html, valueless_href_page)]) link ''href'' =
              Some None"
proof -
  let ?L = "scripted_library [(valueless_href_html, valueless_href_page)]"
  let ?v = "\<lparr>version = Some ''1.6.0'', url = None,
             timestamp = ''2025-05-04T13:21:22'', artifacts = PyStr ''10''\<rparr>"
  have run: "parse_real_pypi_page ?L valueless_href_html =
     Inr \<lparr>project = None, version_count = None, versions = [?v, ?v]\<rparr>"
    by code_simp
  from real_records_shape [of ?L valueless_href_html, THEN conjunct1]
  obtain r where r: "parse_real_pypi_page ?L valueless_href_html = Inr r"
    and shape: "\<forall>v \<in> set (versions r).
        \<exists>row \<in> set (css ?L ''table tbody tr, table tr'' (HTMLParser ?L valueless_href_html)). \<exists>link.
          3 \<le> length (css ?L ''td'' row) \<and>
          css_first ?L ''a'' (css ?L ''td'' row ! 0) = Some link \<and>
          version v = Some (strip (node_text ?L link)) \<and>
          url v = (case attributes ?L link ''href'' of None \<Rightarrow> Some [] | Some h \<Rightarrow> h) \<and>
          timestamp v = strip (node_text ?L (css ?L ''td'' row ! 1)) \<and>
          artifacts v = PyStr (strip (node_text ?L (css ?L ''td'' row ! 2)))"
    by blast
  from r run have "r = \<lparr>project = None, version_count = None, versions = [?v, ?v]\<rparr>" by simp
  then have "versions r = [?v, ?v]" by simp
  then have "?v \<in> set (versions r)" by simp
  with shape obtain row link
    where "row \<in> set (css ?L ''table tbody tr, table tr'' (HTMLParser ?L valueless_href_html))"
      and "css_first ?L ''a'' (css ?L ''td'' row ! 0) = Some link"
      and "url ?v = (case attributes ?L link ''href'' of None \<Rightarrow> Some [] | Some h \<Rightarrow> h)"
    by blast
  then show ?thesis by (auto split: option.splits)
qed

text \<open>An anchor written \<open><a href>\<close> gives a record whose url is absent.\<close>

theorem real_records_shape_counterexample:
  "(case parse_real_pypi_page (scripted_library [(valueless_href_html, valueless_href_page)])
           valueless_href_html of
      Inr r \<Rightarrow> None \<in> set (map url (versions r))
    | Inl e \<Rightarrow> False)"
  by code_simp

section \<open>Properties of the fetcher\<close>

lemma handle_fst:
  "fst (handle env e u w) = (case print env (notice e u) of None \<Rightarrow> Inr None | Some x \<Rightarrow> Inl x)"
  by (simp add: handle_def split: option.splits)

lemma fetch_invalid:
  "\<forall>u. url' = StrObj u \<longrightarrow> u = [] \<Longrightarrow> fetch_url_content env url' timeout w = (Inl ValueError, w)"
  by (cases url') (simp_all add: fetch_url_content_def)

lemma fetch_valid:
  "u \<noteq> [] \<Longrightarrow>
   fst (fetch_url_content env (StrObj u) timeout w) =
     (let failed = (\<lambda>e. case print env (notice e u) of None \<Rightarrow> Inr None | Some x \<Rightarrow> Inl x)
      in case Request env u headers of
           Inl e \<Rightarrow> failed e
         | Inr request \<Rightarrow>
             (case urlopen env request timeout of
                Inl e \<Rightarrow> failed e
              | Inr response \<Rightarrow>
                  (case read response of
                     Inl e \<Rightarrow> failed e
                   | Inr content \<Rightarrow>
                       (case decode env content
                               (case get_content_charset response of
                                  Some c \<Rightarrow> if c \<noteq> [] then c else ''utf-8''
                                | None \<Rightarrow> ''utf-8'') ''replace'' of
                          Inl e \<Rightarrow> failed e
                        | Inr t \<Rightarrow> Inr (Some t)))))"
  by (simp add: fetch_url_content_def Let_def handle_fst split: sum.splits)

text \<open>
  As long as \<open>print\<close> does not raise, the function raises exactly when \<open>url\<close> is not a
  non-empty text, and then before it has handed anything to the network.
\<close>

lemma fetch_with_working_print:
  assumes "\<forall>line. print env line = None"
  shows "((\<exists>e. fst (fetch_url_content env url' timeout w) = Inl e) \<longleftrightarrow>
            (\<forall>u. url' = StrObj u \<longrightarrow> u = [])) \<and>
         ((\<forall>u. url' = StrObj u \<longrightarrow> u = []) \<longrightarrow>
            fetch_url_content env url' timeout w = (Inl ValueError, w))"
proof (cases "\<forall>u. url' = StrObj u \<longrightarrow> u = []")
  case True
  with fetch_invalid [OF True, of env timeout w] show ?thesis by simp
next
  case False
  then obtain u where "url' = StrObj u" "u \<noteq> []" by blast
  with False assms show ?thesis
    by (simp add: fetch_valid Let_def split: sum.splits)
qed

subsection \<open>Invalid input and failures\<close>

text \<open>
  Claim C4 fails on the code. Every \<open>except\<close> clause prints the URL before it returns
  \<open>None\<close>. For the non-empty text that consists of the surrogate U+D800 the constructor
  \<open>Request\<close> raises \<open>ValueError\<close>, the clause that catches it prints a line the standard
  output cannot encode, and the \<open>UnicodeEncodeError\<close> of \<open>print\<close>, a \<open>ValueError\<close>, leaves
  the function: the call raises for a non-empty text \<open>url\<close>.
\<close>

theorem fetch_raises_for_unprintable_url:
  "surrogate_url \<noteq> [] \<and>
   fetch_url_content (scripted_runtime not_found_net) (StrObj surrogate_url) 10 empty_world =
     (Inl UnicodeEncodeError, empty_world)"
  by (simp add: fetch_url_content_def scripted_runtime_def sample_Request_def surrogate_url_def
      handle_def utf8_print_def is_surrogate_def ustr_def sample_repr_def repr_char_def)

text \<open>The exception is raised before anything is handed to the network or printed.\<close>

theorem fetch_raises_for_unprintable_url_witness:
  "fst (fetch_url_content (scripted_runtime not_found_net) (StrObj surrogate_url) 10 empty_world) =
     Inl UnicodeEncodeError \<and>
   snd (fetch_url_content (scripted_runtime not_found_net) (StrObj surrogate_url) 10 empty_world) =
     \<lparr>network = [], stdout = []\<rparr>"
  using fetch_raises_for_unprintable_url by (simp add: empty_world_def)

subsection \<open>Decoding\<close>




end
